theory Spec2Isabelle
  imports Main "HOL-Library.AList"
begin

section \<open>Strings and JSON values\<close>

text \<open>
  A Python \<open>str\<close> is a sequence of Unicode code points, so a character is its code point
  and \<open>len\<close> is \<open>length\<close>. ASCII literals of the source are written with \<open>ascii\<close>; the
  Korean literals are written out as code points.
\<close>

type_synonym pychar = nat
type_synonym pystr = "pychar list"

definition ascii :: "string \<Rightarrow> pystr" where
  "ascii s = map of_char s"

text \<open>The field keys of a record, in the order of the format guide of the web application.\<close>

definition key_name :: pystr \<comment> \<open>U+C774 U+B984, "name"\<close>
  where "key_name = [0xC774, 0xB984]"
definition key_career :: pystr \<comment> \<open>"total experience"\<close>
  where "key_career = [0xCD1D, 0xACBD, 0xB825]"
definition key_position :: pystr \<comment> \<open>"position"\<close>
  where "key_position = [0xD3EC, 0xC9C0, 0xC158]"
definition key_age_paren :: pystr \<comment> \<open>"age(birth year)", with parentheses\<close>
  where "key_age_paren = [0xB098, 0xC774, 0x28, 0xD0C4, 0xC0DD, 0xC5F0, 0xB3C4, 0x29]"
definition key_age :: pystr \<comment> \<open>"age/birth year", with a slash\<close>
  where "key_age = [0xB098, 0xC774, 0x2F, 0xD0C4, 0xC0DD, 0xC5F0, 0xB3C4]"
definition key_gender :: pystr \<comment> \<open>"gender"\<close>
  where "key_gender = [0xC131, 0xBCC4]"
definition key_education_school :: pystr \<comment> \<open>"education(school-major)"\<close>
  where "key_education_school = [0xCD5C, 0xC885, 0xD559, 0xB825, 0x28, 0xD559, 0xAD50, 0x2D, 0xC804, 0xACF5, 0x29]"
definition key_education :: pystr \<comment> \<open>"education(major)"\<close>
  where "key_education = [0xCD5C, 0xC885, 0xD559, 0xB825, 0x28, 0xC804, 0xACF5, 0x29]"
definition key_employer :: pystr \<comment> \<open>"last employer"\<close>
  where "key_employer = [0xCD5C, 0xC885, 0xC9C1, 0xC7A5]"
definition key_duties :: pystr \<comment> \<open>"title/main duties"\<close>
  where "key_duties = [0xC9C1, 0xAE09, 0x2F, 0xC8FC, 0xC694, 0xC5C5, 0xBB34]"
definition key_phone :: pystr \<comment> \<open>"phone number"\<close>
  where "key_phone = [0xC804, 0xD654, 0xBC88, 0xD638]"
definition key_email :: pystr \<comment> \<open>"e-mail"\<close>
  where "key_email = [0xC774, 0xBA54, 0xC77C]"
definition key_skills :: pystr \<comment> \<open>"core skills"\<close>
  where "key_skills = [0xD575, 0xC2EC, 0xC5ED, 0xB7C9]"

text \<open>The messages of the web application.\<close>

abbreviation msg_no_name :: pystr \<comment> \<open>"this data has no name."\<close>
  where "msg_no_name \<equiv> [0xC774, 0xB984, 0xC774, 0x20, 0xC5C6, 0xB294, 0x20, 0xB370, 0xC774,
     0xD130, 0xC785, 0xB2C8, 0xB2E4, 0x2E]"
abbreviation msg_upload_done :: pystr \<comment> \<open>" upload complete", with its leading space\<close>
  where "msg_upload_done \<equiv> [0x20, 0xC5C5, 0xB85C, 0xB4DC, 0x20, 0xC644, 0xB8CC]"
abbreviation msg_upload_failed :: pystr \<comment> \<open>"upload failed: "\<close>
  where "msg_upload_failed \<equiv> [0xC5C5, 0xB85C, 0xB4DC, 0x20, 0xC2E4, 0xD328, 0x3A, 0x20]"
abbreviation msg_connected :: pystr \<comment> \<open>"connection succeeded!"\<close>
  where "msg_connected \<equiv> [0xC5F0, 0xACB0, 0x20, 0xC131, 0xACF5, 0x21]"
abbreviation msg_connect_failed :: pystr \<comment> \<open>"connection failed: "\<close>
  where "msg_connect_failed \<equiv> [0xC5F0, 0xACB0, 0x20, 0xC2E4, 0xD328, 0x3A, 0x20]"

text \<open>
  The values of a parsed JSON object. Of a float, a list or a nested object the program
  observes only the truth value and \<open>str()\<close>, which is what \<open>PObject\<close> carries.
\<close>

datatype pyval =
    PNone
  | PBool bool
  | PInt int
  | PStr pystr
  | PObject bool pystr

fun truthy :: "pyval \<Rightarrow> bool" where
  "truthy PNone = False"
| "truthy (PBool b) = b"
| "truthy (PInt i) = (i \<noteq> 0)"
| "truthy (PStr s) = (s \<noteq> [])"
| "truthy (PObject t s) = t"

fun str_nat :: "nat \<Rightarrow> pystr" where
  "str_nat n = (if n < 10 then [48 + n] else str_nat (n div 10) @ [48 + n mod 10])"

declare str_nat.simps [simp del]

definition str_int :: "int \<Rightarrow> pystr" where
  "str_int i = (if i < 0 then 0x2D # str_nat (nat (- i)) else str_nat (nat i))"

fun py_str :: "pyval \<Rightarrow> pystr" where
  "py_str PNone = ascii ''None''"
| "py_str (PBool b) = (if b then ascii ''True'' else ascii ''False'')"
| "py_str (PInt i) = str_int i"
| "py_str (PStr s) = s"
| "py_str (PObject t s) = s"

text \<open>\<open>a or b\<close> is \<open>a\<close> when \<open>a\<close> is true and \<open>b\<close> otherwise.\<close>

definition py_or :: "pyval \<Rightarrow> pyval \<Rightarrow> pyval" where
  "py_or a b = (if truthy a then a else b)"

text \<open>
  A record is a dictionary from keys to values; \<open>d.get(k)\<close> is \<open>None\<close> for a missing key,
  \<open>d[k]\<close> raises \<open>KeyError\<close>.
\<close>

type_synonym pydict = "(pystr \<times> pyval) list"

datatype pyexn = KeyError pystr | TypeError pystr | APIError pystr

text \<open>\<open>str(e)\<close>: a \<open>KeyError\<close> prints its key between apostrophes.\<close>

fun exn_str :: "pyexn \<Rightarrow> pystr" where
  "exn_str (KeyError k) = [0x27] @ k @ [0x27]"
| "exn_str (TypeError m) = m"
| "exn_str (APIError m) = m"

definition dict_get :: "pydict \<Rightarrow> pystr \<Rightarrow> pyval" where
  "dict_get d k = (case map_of d k of None \<Rightarrow> PNone | Some v \<Rightarrow> v)"

definition dict_item :: "pydict \<Rightarrow> pystr \<Rightarrow> pyexn + pyval" where
  "dict_item d k = (case map_of d k of None \<Rightarrow> Inl (KeyError k) | Some v \<Rightarrow> Inr v)"

section \<open>The phone normalizer\<close>

text \<open>
  \<open>str.isdigit\<close> is a builtin that reads the interpreter's Unicode tables; the functions
  take it as the parameter \<open>isdigit\<close>. On the code points below U+0100 it holds of the ten
  ASCII digits and of the superscripts two, three and one (U+00B2, U+00B3, U+00B9), whose
  Unicode numeric type is Digit: that part of the table is \<open>isdigit_latin1\<close>, used to run
  the functions on strings of such code points.
\<close>

definition isdigit_latin1 :: "pychar \<Rightarrow> bool" where
  "isdigit_latin1 c \<longleftrightarrow> (0x30 \<le> c \<and> c \<le> 0x39) \<or> c = 0xB2 \<or> c = 0xB3 \<or> c = 0xB9"

text \<open>\<open>NotionUploader._format_phone\<close> of the web application.\<close>

definition NotionUploader_format_phone :: "(pychar \<Rightarrow> bool) \<Rightarrow> pyval \<Rightarrow> pystr" where
  "NotionUploader_format_phone isdigit phone =
     (let phone_cleaned = filter isdigit (py_str phone) in
      if length phone_cleaned = 11 \<and> take 3 phone_cleaned = ascii ''010''
      then take 3 phone_cleaned @ ascii ''-'' @ take 4 (drop 3 phone_cleaned) @ ascii ''-''
             @ drop 7 phone_cleaned
      else py_str phone)"

text \<open>\<open>_format_phone\<close> of the resume parser, the same body as a module function.\<close>

definition format_phone :: "(pychar \<Rightarrow> bool) \<Rightarrow> pyval \<Rightarrow> pystr" where
  "format_phone isdigit phone =
     (let phone_cleaned = filter isdigit (py_str phone) in
      if length phone_cleaned = 11 \<and> take 3 phone_cleaned = ascii ''010''
      then take 3 phone_cleaned @ ascii ''-'' @ take 4 (drop 3 phone_cleaned) @ ascii ''-''
             @ drop 7 phone_cleaned
      else py_str phone)"

text \<open>
  A full match of the pattern \<open>D{3}-D{4}-D{4}\<close> for a character class \<open>D\<close>. The class
  \<open>\d\<close> of a regular expression holds, below U+0100, of the ten ASCII digits only.
\<close>

definition phone_pattern :: "(pychar \<Rightarrow> bool) \<Rightarrow> pystr \<Rightarrow> bool" where
  "phone_pattern D s \<longleftrightarrow>
     length s = 13 \<and> list_all D (take 3 s) \<and> s ! 3 = 0x2D \<and> list_all D (take 4 (drop 4 s))
     \<and> s ! 8 = 0x2D \<and> list_all D (drop 9 s)"

definition ascii_digit :: "pychar \<Rightarrow> bool" where
  "ascii_digit c \<longleftrightarrow> 0x30 \<le> c \<and> c \<le> 0x39"

section \<open>Splitting and trimming\<close>

text \<open>\<open>s.split(',')\<close>: the segments between the separators, at least one segment.\<close>

fun split :: "pychar \<Rightarrow> pystr \<Rightarrow> pystr list" where
  "split sep [] = [[]]"
| "split sep (c # cs) =
     (if c = sep then [] # split sep cs
      else (case split sep cs of [] \<Rightarrow> [[c]] | w # ws \<Rightarrow> (c # w) # ws))"

text \<open>
  \<open>s.strip()\<close> removes the leading and trailing whitespace; \<open>isspace\<close> lists the code points
  that \<open>str.isspace\<close> accepts.
\<close>

definition isspace :: "pychar \<Rightarrow> bool" where
  "isspace c \<longleftrightarrow>
     (0x09 \<le> c \<and> c \<le> 0x0D) \<or> (0x1C \<le> c \<and> c \<le> 0x20) \<or> c = 0x85 \<or> c = 0xA0 \<or> c = 0x1680
     \<or> (0x2000 \<le> c \<and> c \<le> 0x200A) \<or> c = 0x2028 \<or> c = 0x2029 \<or> c = 0x202F \<or> c = 0x205F
     \<or> c = 0x3000"

definition strip :: "pystr \<Rightarrow> pystr" where
  "strip s = rev (dropWhile isspace (rev (dropWhile isspace s)))"

section \<open>Properties of a page\<close>

text \<open>
  The payloads the mappers build, one constructor per shape of dictionary:
  \<open>{"title": [{"text": {"content": s}}]}\<close>, \<open>{"email": v}\<close>, \<open>{"phone_number": s}\<close>,
  \<open>{"rich_text": [{"text": {"content": s}}]}\<close>, \<open>{"select": {"name": s}}\<close> and
  \<open>{"multi_select": [{"name": s}, ...]}\<close>.
\<close>

datatype payload =
    Title pystr
  | Email pyval
  | PhoneNumber pystr
  | RichText pystr
  | Select pystr
  | MultiSelect "pystr list"

text \<open>
  \<open>properties\<close> is a dictionary in insertion order; \<open>properties[k] = v\<close> is
  \<open>AList.update k v\<close>. The schema is \<open>db_info['properties']\<close>, read only through
  \<open>field in ...\<close> and \<open>...[field]['type']\<close>: the declared type name of each property.
\<close>

type_synonym properties = "(pystr \<times> payload) list"
type_synonym schema = "(pystr \<times> pystr) list"

text \<open>The keys of a dictionary.\<close>

definition keys :: "('k \<times> 'v) list \<Rightarrow> 'k set" where
  "keys d = fst ` set d"

text \<open>The store that the source wraps in \<open>try\<close>: a dictionary store with a string key.\<close>

definition setitem :: "properties \<Rightarrow> pystr \<Rightarrow> payload \<Rightarrow> pyexn + properties" where
  "setitem properties k v = Inr (AList.update k v properties)"

text \<open>
  The phone block of both mappers:
  \<^verbatim>\<open>
    phone = _format_phone(person_data[phone_key])
    try:    properties[phone_key] = {"phone_number": phone}
    except: properties[phone_key] = {"rich_text": [{"text": {"content": phone}}]}
  \<close>
\<close>

definition store_phone :: "pystr \<Rightarrow> properties \<Rightarrow> properties" where
  "store_phone phone properties =
     (case setitem properties key_phone (PhoneNumber phone) of
        Inr properties' \<Rightarrow> properties'
      | Inl e \<Rightarrow> AList.update key_phone (RichText phone) properties)"

text \<open>The body of the loop over \<open>select_fields\<close>, once \<open>value\<close> is known to be true.\<close>

definition select_field :: "schema \<Rightarrow> pystr \<Rightarrow> pyval \<Rightarrow> properties \<Rightarrow> properties" where
  "select_field db_properties field v properties =
     (if map_of db_properties field \<noteq> None
      then (if map_of db_properties field = Some (ascii ''select'')
            then AList.update field (Select (py_str v)) properties
            else properties)
      else properties)"

text \<open>The body of the loop over \<open>rich_text_fields\<close>, once \<open>value\<close> is known to be true.\<close>

definition rich_text_field :: "schema \<Rightarrow> pystr \<Rightarrow> pyval \<Rightarrow> properties \<Rightarrow> properties" where
  "rich_text_field db_properties field v properties =
     (if map_of db_properties field \<noteq> None
      then (let prop_type = map_of db_properties field in
            if prop_type = Some (ascii ''rich_text'')
            then AList.update field (RichText (py_str v)) properties
            else if prop_type = Some (ascii ''multi_select'') \<and> field = key_position
            then (let vals = map strip (split 0x2C (py_str v)) in
                  AList.update field (MultiSelect (filter (\<lambda>val. val \<noteq> []) vals)) properties)
            else properties)
      else properties)"

section \<open>The mapper of the resume parser\<close>

text \<open>\<open>_build_properties(person_data, db_info)\<close>; \<open>db_info\<close> is a retrieved database.\<close>

fun select_loop :: "schema \<Rightarrow> (pystr \<times> pyval) list \<Rightarrow> properties \<Rightarrow> properties" where
  "select_loop db_properties [] properties = properties"
| "select_loop db_properties ((field, v) # rest) properties =
     select_loop db_properties rest
       (if truthy v then select_field db_properties field v properties else properties)"

fun rich_text_loop :: "schema \<Rightarrow> (pystr \<times> pyval) list \<Rightarrow> properties \<Rightarrow> properties" where
  "rich_text_loop db_properties [] properties = properties"
| "rich_text_loop db_properties ((field, v) # rest) properties =
     rich_text_loop db_properties rest
       (if truthy v then rich_text_field db_properties field v properties else properties)"

definition build_properties :: "(pychar \<Rightarrow> bool) \<Rightarrow> pydict \<Rightarrow> schema \<Rightarrow> properties" where
  "build_properties isdigit person_data db_info =
     (let properties = [];
          properties =
            (if truthy (dict_get person_data key_name)
             then AList.update key_name (Title (py_str (dict_get person_data key_name))) properties
             else properties);
          properties =
            (if truthy (dict_get person_data key_email)
             then AList.update key_email (Email (dict_get person_data key_email)) properties
             else properties);
          properties =
            (if truthy (dict_get person_data key_phone)
             then store_phone (format_phone isdigit (dict_get person_data key_phone)) properties
             else properties);
          select_fields =
            [(key_age, dict_get person_data key_age),
             (key_gender, dict_get person_data key_gender)];
          properties = select_loop db_info select_fields properties;
          rich_text_fields =
            [(key_career, dict_get person_data key_career),
             (key_education, dict_get person_data key_education),
             (key_employer, dict_get person_data key_employer),
             (key_duties, dict_get person_data key_duties),
             (key_skills, dict_get person_data key_skills),
             (key_position, dict_get person_data key_position)]
      in rich_text_loop db_info rich_text_fields properties)"

section \<open>The web application\<close>

text \<open>
  The two calls of the Notion client, each on a state \<open>'w\<close> of the remote side: they return
  or raise, and leave a new state. A created page is represented by its URL.
\<close>

record 'w client =
  databases_retrieve :: "pystr \<Rightarrow> 'w \<Rightarrow> (pyexn + schema) \<times> 'w"
  pages_create :: "pystr \<Rightarrow> properties \<Rightarrow> 'w \<Rightarrow> (pyexn + pystr) \<times> 'w"

text \<open>
  The fields of a \<open>NotionUploader\<close>; \<open>__init__\<close> sets \<open>db_info\<close> to \<open>None\<close> and
  \<open>test_connection\<close> fills it.
\<close>

record uploader =
  database_id :: pystr
  db_info :: "schema option"

definition init_uploader :: "pystr \<Rightarrow> uploader" where
  "init_uploader dbid = \<lparr>database_id = dbid, db_info = None\<rparr>"

text \<open>\<open>self.db_info['properties']\<close>: subscripting \<open>None\<close> raises \<open>TypeError\<close>.\<close>

definition db_properties :: "uploader \<Rightarrow> pyexn + schema" where
  "db_properties self =
     (case db_info self of
        None \<Rightarrow> Inl (TypeError ([0x27] @ ascii ''NoneType'' @ [0x27]
                          @ ascii '' object is not subscriptable''))
      | Some sch \<Rightarrow> Inr sch)"

text \<open>\<open>test_connection\<close>: the result pair, the uploader and the remote state afterwards.\<close>

definition test_connection ::
  "'w client \<Rightarrow> uploader \<Rightarrow> 'w \<Rightarrow> (pyexn + bool \<times> pystr) \<times> uploader \<times> 'w" where
  "test_connection notion self w =
     (case databases_retrieve notion (database_id self) w of
        (Inr info, w') \<Rightarrow> (Inr (True, msg_connected), self\<lparr>db_info := Some info\<rparr>, w')
      | (Inl e, w') \<Rightarrow> (Inr (False, msg_connect_failed @ exn_str e), self, w'))"

text \<open>
  The two loops of \<open>NotionUploader._build_properties\<close>. The schema is read from \<open>self\<close>
  after \<open>value\<close> was found true (\<open>and\<close> evaluates its right operand only then).
\<close>

fun NotionUploader_select_loop ::
  "uploader \<Rightarrow> (pystr \<times> pyval) list \<Rightarrow> properties \<Rightarrow> pyexn + properties" where
  "NotionUploader_select_loop self [] properties = Inr properties"
| "NotionUploader_select_loop self ((field, v) # rest) properties =
     (if truthy v
      then (case db_properties self of
              Inl e \<Rightarrow> Inl e
            | Inr sch \<Rightarrow>
                NotionUploader_select_loop self rest (select_field sch field v properties))
      else NotionUploader_select_loop self rest properties)"

fun NotionUploader_rich_text_loop ::
  "uploader \<Rightarrow> (pystr \<times> pyval) list \<Rightarrow> properties \<Rightarrow> pyexn + properties" where
  "NotionUploader_rich_text_loop self [] properties = Inr properties"
| "NotionUploader_rich_text_loop self ((field, v) # rest) properties =
     (if truthy v
      then (case db_properties self of
              Inl e \<Rightarrow> Inl e
            | Inr sch \<Rightarrow>
                NotionUploader_rich_text_loop self rest (rich_text_field sch field v properties))
      else NotionUploader_rich_text_loop self rest properties)"

definition NotionUploader_build_properties ::
  "(pychar \<Rightarrow> bool) \<Rightarrow> uploader \<Rightarrow> pydict \<Rightarrow> pyexn + properties" where
  "NotionUploader_build_properties isdigit self person_data =
     (case dict_item person_data key_name of
        Inl e \<Rightarrow> Inl e
      | Inr name \<Rightarrow>
         (let properties = AList.update key_name (Title (py_str name)) [];
              properties =
                (if truthy (dict_get person_data key_email)
                 then AList.update key_email (Email (dict_get person_data key_email)) properties
                 else properties);
              properties =
                (if truthy (dict_get person_data key_phone)
                 then store_phone
                        (NotionUploader_format_phone isdigit (dict_get person_data key_phone))
                        properties
                 else properties);
              select_fields =
                [(key_age,
                    py_or (dict_get person_data key_age_paren) (dict_get person_data key_age)),
                 (key_gender, dict_get person_data key_gender)]
          in case NotionUploader_select_loop self select_fields properties of
               Inl e \<Rightarrow> Inl e
             | Inr properties \<Rightarrow>
                (let rich_text_fields =
                   [(key_career, dict_get person_data key_career),
                    (key_education,
                       py_or (dict_get person_data key_education_school)
                             (dict_get person_data key_education)),
                    (key_employer, dict_get person_data key_employer),
                    (key_duties, dict_get person_data key_duties),
                    (key_skills, dict_get person_data key_skills),
                    (key_position, dict_get person_data key_position)]
                 in NotionUploader_rich_text_loop self rich_text_fields properties)))"

text \<open>
  \<open>upload_person\<close>: first the body of its \<open>try\<close>, which returns a pair or raises, then the
  function, whose \<open>except Exception\<close> turns what was raised into a pair.
\<close>

definition upload_person_try ::
  "(pychar \<Rightarrow> bool) \<Rightarrow> 'w client \<Rightarrow> uploader \<Rightarrow> pydict \<Rightarrow> 'w \<Rightarrow> (pyexn + bool \<times> pystr) \<times> 'w"
  where
  "upload_person_try isdigit notion self person_data w =
     (if \<not> truthy (dict_get person_data key_name) then (Inr (False, msg_no_name), w)
      else case NotionUploader_build_properties isdigit self person_data of
             Inl e \<Rightarrow> (Inl e, w)
           | Inr properties \<Rightarrow>
              (case pages_create notion (database_id self) properties w of
                 (Inl e, w') \<Rightarrow> (Inl e, w')
               | (Inr page, w') \<Rightarrow>
                  (case dict_item person_data key_name of
                     Inl e \<Rightarrow> (Inl e, w')
                   | Inr name \<Rightarrow>
                      (Inr (True, [0x27] @ py_str name @ [0x27] @ msg_upload_done), w'))))"

definition upload_person ::
  "(pychar \<Rightarrow> bool) \<Rightarrow> 'w client \<Rightarrow> uploader \<Rightarrow> pydict \<Rightarrow> 'w \<Rightarrow> (pyexn + bool \<times> pystr) \<times> 'w"
  where
  "upload_person isdigit notion self person_data w =
     (case upload_person_try isdigit notion self person_data w of
        (Inl e, w') \<Rightarrow> (Inr (False, msg_upload_failed @ exn_str e), w')
      | (Inr r, w') \<Rightarrow> (Inr r, w'))"



section \<open>The upload of the resume parser\<close>



section \<open>Notions used to state the properties\<close>


text \<open>
  The value the web application reads for a field: age and education are looked up under
  the older spelling of the key first.
\<close>

definition NotionUploader_value :: "pydict \<Rightarrow> pystr \<Rightarrow> pyval" where
  "NotionUploader_value person_data k =
     (if k = key_age
      then py_or (dict_get person_data key_age_paren) (dict_get person_data key_age)
      else if k = key_education
      then py_or (dict_get person_data key_education_school) (dict_get person_data key_education)
      else dict_get person_data k)"

text \<open>The choices of a comma-separated text: split, trimmed, the empty ones dropped.\<close>

definition choices :: "pystr \<Rightarrow> pystr list" where
  "choices s = filter (\<lambda>val. val \<noteq> []) (map strip (split 0x2C s))"




text \<open>
  Clients to run the functions on: one whose database has a given schema and whose state
  is the list of the property sets that \<open>pages.create\<close> received; one whose calls all
  raise; and one that counts the calls of \<open>pages.create\<close> and raises on the second.
\<close>

definition recording_client :: "schema \<Rightarrow> properties list client" where
  "recording_client sch =
     \<lparr>databases_retrieve = (\<lambda>dbid pages. (Inr sch, pages)),
      pages_create = (\<lambda>dbid properties pages. (Inr (ascii ''page''), pages @ [properties]))\<rparr>"

definition raising_client :: "pyexn \<Rightarrow> unit client" where
  "raising_client e =
     \<lparr>databases_retrieve = (\<lambda>dbid w. (Inl e, w)),
      pages_create = (\<lambda>dbid properties w. (Inl e, w))\<rparr>"


section \<open>Verified properties\<close>

subsection \<open>Running the functions\<close>

text \<open>The keys as code points.\<close>

lemmas key_defs =
  key_name_def key_career_def key_position_def key_age_paren_def
  key_age_def key_gender_def key_education_school_def key_education_def
  key_employer_def key_duties_def key_phone_def key_email_def
  key_skills_def

text \<open>The thirteen keys are pairwise different.\<close>

lemma key_neq [simp]:
  "key_name \<noteq> key_career" "key_name \<noteq> key_position"
  "key_name \<noteq> key_age_paren" "key_name \<noteq> key_age"
  "key_name \<noteq> key_gender" "key_name \<noteq> key_education_school"
  "key_name \<noteq> key_education" "key_name \<noteq> key_employer"
  "key_name \<noteq> key_duties" "key_name \<noteq> key_phone"
  "key_name \<noteq> key_email" "key_name \<noteq> key_skills"
  "key_career \<noteq> key_name" "key_career \<noteq> key_position"
  "key_career \<noteq> key_age_paren" "key_career \<noteq> key_age"
  "key_career \<noteq> key_gender" "key_career \<noteq> key_education_school"
  "key_career \<noteq> key_education" "key_career \<noteq> key_employer"
  "key_career \<noteq> key_duties" "key_career \<noteq> key_phone"
  "key_career \<noteq> key_email" "key_career \<noteq> key_skills"
  "key_position \<noteq> key_name" "key_position \<noteq> key_career"
  "key_position \<noteq> key_age_paren" "key_position \<noteq> key_age"
  "key_position \<noteq> key_gender" "key_position \<noteq> key_education_school"
  "key_position \<noteq> key_education" "key_position \<noteq> key_employer"
  "key_position \<noteq> key_duties" "key_position \<noteq> key_phone"
  "key_position \<noteq> key_email" "key_position \<noteq> key_skills"
  "key_age_paren \<noteq> key_name" "key_age_paren \<noteq> key_career"
  "key_age_paren \<noteq> key_position" "key_age_paren \<noteq> key_age"
  "key_age_paren \<noteq> key_gender" "key_age_paren \<noteq> key_education_school"
  "key_age_paren \<noteq> key_education" "key_age_paren \<noteq> key_employer"
  "key_age_paren \<noteq> key_duties" "key_age_paren \<noteq> key_phone"
  "key_age_paren \<noteq> key_email" "key_age_paren \<noteq> key_skills"
  "key_age \<noteq> key_name" "key_age \<noteq> key_career"
  "key_age \<noteq> key_position" "key_age \<noteq> key_age_paren"
  "key_age \<noteq> key_gender" "key_age \<noteq> key_education_school"
  "key_age \<noteq> key_education" "key_age \<noteq> key_employer"
  "key_age \<noteq> key_duties" "key_age \<noteq> key_phone"
  "key_age \<noteq> key_email" "key_age \<noteq> key_skills"
  "key_gender \<noteq> key_name" "key_gender \<noteq> key_career"
  "key_gender \<noteq> key_position" "key_gender \<noteq> key_age_paren"
  "key_gender \<noteq> key_age" "key_gender \<noteq> key_education_school"
  "key_gender \<noteq> key_education" "key_gender \<noteq> key_employer"
  "key_gender \<noteq> key_duties" "key_gender \<noteq> key_phone"
  "key_gender \<noteq> key_email" "key_gender \<noteq> key_skills"
  "key_education_school \<noteq> key_name" "key_education_school \<noteq> key_career"
  "key_education_school \<noteq> key_position" "key_education_school \<noteq> key_age_paren"
  "key_education_school \<noteq> key_age" "key_education_school \<noteq> key_gender"
  "key_education_school \<noteq> key_education" "key_education_school \<noteq> key_employer"
  "key_education_school \<noteq> key_duties" "key_education_school \<noteq> key_phone"
  "key_education_school \<noteq> key_email" "key_education_school \<noteq> key_skills"
  "key_education \<noteq> key_name" "key_education \<noteq> key_career"
  "key_education \<noteq> key_position" "key_education \<noteq> key_age_paren"
  "key_education \<noteq> key_age" "key_education \<noteq> key_gender"
  "key_education \<noteq> key_education_school" "key_education \<noteq> key_employer"
  "key_education \<noteq> key_duties" "key_education \<noteq> key_phone"
  "key_education \<noteq> key_email" "key_education \<noteq> key_skills"
  "key_employer \<noteq> key_name" "key_employer \<noteq> key_career"
  "key_employer \<noteq> key_position" "key_employer \<noteq> key_age_paren"
  "key_employer \<noteq> key_age" "key_employer \<noteq> key_gender"
  "key_employer \<noteq> key_education_school" "key_employer \<noteq> key_education"
  "key_employer \<noteq> key_duties" "key_employer \<noteq> key_phone"
  "key_employer \<noteq> key_email" "key_employer \<noteq> key_skills"
  "key_duties \<noteq> key_name" "key_duties \<noteq> key_career"
  "key_duties \<noteq> key_position" "key_duties \<noteq> key_age_paren"
  "key_duties \<noteq> key_age" "key_duties \<noteq> key_gender"
  "key_duties \<noteq> key_education_school" "key_duties \<noteq> key_education"
  "key_duties \<noteq> key_employer" "key_duties \<noteq> key_phone"
  "key_duties \<noteq> key_email" "key_duties \<noteq> key_skills"
  "key_phone \<noteq> key_name" "key_phone \<noteq> key_career"
  "key_phone \<noteq> key_position" "key_phone \<noteq> key_age_paren"
  "key_phone \<noteq> key_age" "key_phone \<noteq> key_gender"
  "key_phone \<noteq> key_education_school" "key_phone \<noteq> key_education"
  "key_phone \<noteq> key_employer" "key_phone \<noteq> key_duties"
  "key_phone \<noteq> key_email" "key_phone \<noteq> key_skills"
  "key_email \<noteq> key_name" "key_email \<noteq> key_career"
  "key_email \<noteq> key_position" "key_email \<noteq> key_age_paren"
  "key_email \<noteq> key_age" "key_email \<noteq> key_gender"
  "key_email \<noteq> key_education_school" "key_email \<noteq> key_education"
  "key_email \<noteq> key_employer" "key_email \<noteq> key_duties"
  "key_email \<noteq> key_phone" "key_email \<noteq> key_skills"
  "key_skills \<noteq> key_name" "key_skills \<noteq> key_career"
  "key_skills \<noteq> key_position" "key_skills \<noteq> key_age_paren"
  "key_skills \<noteq> key_age" "key_skills \<noteq> key_gender"
  "key_skills \<noteq> key_education_school" "key_skills \<noteq> key_education"
  "key_skills \<noteq> key_employer" "key_skills \<noteq> key_duties"
  "key_skills \<noteq> key_phone" "key_skills \<noteq> key_email"
  by (simp_all add: key_defs)

text \<open>The definitions that a run of the mappers on a given record unfolds.\<close>

lemmas eval_defs =
  build_properties_def NotionUploader_build_properties_def Let_def dict_get_def dict_item_def
  store_phone_def setitem_def select_field_def rich_text_field_def db_properties_def py_or_def
  format_phone_def NotionUploader_format_phone_def isdigit_latin1_def ascii_def keys_def
  NotionUploader_value_def key_defs

subsection \<open>Splitting and trimming\<close>

text \<open>
  The segments of a split hold no separator and, joined by the separator, give the text
  back; a trimmed text is the text without a prefix and a suffix of whitespace, and
  neither begins nor ends with whitespace.
\<close>

lemma split_not_Nil: "split sep s \<noteq> []"
  by (induction s) (auto split: list.split)

lemma split_no_sep: "w \<in> set (split sep s) \<Longrightarrow> sep \<notin> set w"
proof (induction s arbitrary: w)
  case Nil
  then show ?case by simp
next
  case (Cons c cs)
  then show ?case
    by (cases "split sep cs") (auto split: if_splits)
qed

lemma split_join: "concat (map (\<lambda>w. w @ [sep]) (split sep s)) = s @ [sep]"
proof (induction s)
  case Nil
  show ?case by simp
next
  case (Cons c cs)
  then show ?case
    by (cases "split sep cs") (auto simp add: split_not_Nil)
qed

lemma dropWhile_prefix: "\<exists>a. s = a @ dropWhile P s \<and> list_all P a"
proof
  show "s = takeWhile P s @ dropWhile P s \<and> list_all P (takeWhile P s)"
    by (simp add: list_all_iff) (meson set_takeWhileD)
qed

lemma strip_sandwich: "\<exists>a b. s = a @ strip s @ b \<and> list_all isspace a \<and> list_all isspace b"
proof -
  let ?t = "dropWhile isspace s"
  obtain a where a: "s = a @ ?t" "list_all isspace a"
    using dropWhile_prefix [of s isspace] by blast
  obtain b where b: "rev ?t = b @ dropWhile isspace (rev ?t)" "list_all isspace b"
    using dropWhile_prefix [of "rev ?t" isspace] by blast
  from b(1) have "?t = rev (dropWhile isspace (rev ?t)) @ rev b"
    by (metis rev_append rev_rev_ident)
  then have "?t = strip s @ rev b"
    by (simp add: strip_def)
  with a have "s = a @ strip s @ rev b"
    by simp
  moreover from b(2) have "list_all isspace (rev b)"
    by (simp add: list_all_iff)
  ultimately show ?thesis
    using a(2) by blast
qed

lemma strip_ends:
  assumes "strip s \<noteq> []"
  shows "\<not> isspace (hd (strip s)) \<and> \<not> isspace (last (strip s))"
proof -
  define t where "t = dropWhile isspace s"
  define u where "u = dropWhile isspace (rev t)"
  have s: "strip s = rev u"
    by (simp add: strip_def t_def u_def)
  with assms have u: "u \<noteq> []"
    by simp
  then have l: "\<not> isspace (hd u)"
    unfolding u_def by (rule hd_dropWhile)
  have t: "t \<noteq> []"
  proof
    assume "t = []"
    then have "u = []" by (simp add: u_def)
    with u show False by simp
  qed
  then have h: "\<not> isspace (hd t)"
    unfolding t_def by (rule hd_dropWhile)
  have "rev t = takeWhile isspace (rev t) @ u"
    by (simp add: u_def)
  with u have "last (rev t) = last u"
    by (metis last_appendR)
  with t have "last u = hd t"
    by (simp add: last_rev)
  with u h l show ?thesis
    by (simp add: s hd_rev last_rev)
qed

subsection \<open>Auxiliary facts about the mappers\<close>

lemma keys_update: "keys (AList.update k v d) = insert k (keys d)"
  by (simp add: keys_def AList.dom_update)

lemma keys_Nil: "keys [] = {}"
  by (simp add: keys_def)


lemma map_of_select_field:
  "map_of (select_field sch f v props) k =
     (if k = f \<and> map_of sch f = Some (ascii ''select'') then Some (Select (py_str v))
      else map_of props k)"
  by (auto simp add: select_field_def AList.update_conv')

lemma map_of_rich_text_field:
  "map_of (rich_text_field sch f v props) k =
     (if k = f \<and> map_of sch f = Some (ascii ''rich_text'') then Some (RichText (py_str v))
      else if k = f \<and> f = key_position \<and> map_of sch f = Some (ascii ''multi_select'')
      then Some (MultiSelect (choices (py_str v)))
      else map_of props k)"
proof (cases "map_of sch f")
  case None
  then show ?thesis by (simp add: rich_text_field_def)
next
  case (Some t)
  then show ?thesis
    by (simp add: rich_text_field_def choices_def Let_def AList.update_conv')
qed



lemma keys_store_phone: "keys (store_phone p props) = insert key_phone (keys props)"
  by (simp add: store_phone_def setitem_def keys_update)

lemma map_of_store_phone:
  "map_of (store_phone p props) k = (if k = key_phone then Some (PhoneNumber p) else map_of props k)"
  by (simp add: store_phone_def setitem_def AList.update_conv')




lemma NotionUploader_select_loop_Some:
  "db_info self = Some sch \<Longrightarrow>
   NotionUploader_select_loop self fs props = Inr (select_loop sch fs props)"
  by (induction fs arbitrary: props) (auto simp add: db_properties_def)

lemma NotionUploader_rich_text_loop_Some:
  "db_info self = Some sch \<Longrightarrow>
   NotionUploader_rich_text_loop self fs props = Inr (rich_text_loop sch fs props)"
  by (induction fs arbitrary: props) (auto simp add: db_properties_def)


lemma dict_item_truthy:
  "truthy (dict_get d k) \<Longrightarrow> dict_item d k = Inr (dict_get d k)"
  by (cases "map_of d k") (simp_all add: dict_get_def dict_item_def)

lemma NotionUploader_format_phone_eq:
  "NotionUploader_format_phone isdigit p = format_phone isdigit p"
  by (simp add: NotionUploader_format_phone_def format_phone_def)


text \<open>The properties both mappers hold before their loops, for a record with a name.\<close>

lemma NotionUploader_build_properties_Some:
  assumes "db_info self = Some sch"
  shows "NotionUploader_build_properties isdigit self r =
     (case dict_item r key_name of
        Inl e \<Rightarrow> Inl e
      | Inr name \<Rightarrow>
          Inr (rich_text_loop sch
                 [(key_career, NotionUploader_value r key_career),
                  (key_education, NotionUploader_value r key_education),
                  (key_employer, NotionUploader_value r key_employer),
                  (key_duties, NotionUploader_value r key_duties),
                  (key_skills, NotionUploader_value r key_skills),
                  (key_position, NotionUploader_value r key_position)]
                 (select_loop sch
                    [(key_age, NotionUploader_value r key_age),
                     (key_gender, NotionUploader_value r key_gender)]
                    (if truthy (dict_get r key_phone)
                     then store_phone (format_phone isdigit (dict_get r key_phone))
                            (if truthy (dict_get r key_email)
                             then AList.update key_email (Email (dict_get r key_email))
                                    [(key_name, Title (py_str name))]
                             else [(key_name, Title (py_str name))])
                     else (if truthy (dict_get r key_email)
                           then AList.update key_email (Email (dict_get r key_email))
                                  [(key_name, Title (py_str name))]
                           else [(key_name, Title (py_str name))])))))"
proof (cases "dict_item r key_name")
  case (Inl e)
  then show ?thesis
    by (simp add: NotionUploader_build_properties_def)
next
  case (Inr name)
  have v: "NotionUploader_value r key_career = dict_get r key_career"
    "NotionUploader_value r key_employer = dict_get r key_employer"
    "NotionUploader_value r key_duties = dict_get r key_duties"
    "NotionUploader_value r key_skills = dict_get r key_skills"
    "NotionUploader_value r key_position = dict_get r key_position"
    "NotionUploader_value r key_gender = dict_get r key_gender"
    "NotionUploader_value r key_age = py_or (dict_get r key_age_paren) (dict_get r key_age)"
    "NotionUploader_value r key_education
       = py_or (dict_get r key_education_school) (dict_get r key_education)"
    by (simp_all add: NotionUploader_value_def)
  show ?thesis
    unfolding NotionUploader_build_properties_def Let_def Inr v
      NotionUploader_select_loop_Some [OF assms] NotionUploader_rich_text_loop_Some [OF assms]
      NotionUploader_format_phone_eq
    by (simp only: sum.case AList.update.simps if_distrib [of "store_phone _"] if_cancel)
qed


lemma keys_Cons: "keys ((k, v) # d) = insert k (keys d)"
  by (simp add: keys_def)

lemma keys_initial:
  "keys (if truthy (dict_get r key_phone)
         then store_phone p
                (if truthy (dict_get r key_email)
                 then AList.update key_email e [(key_name, t)]
                 else [(key_name, t)])
         else (if truthy (dict_get r key_email)
               then AList.update key_email e [(key_name, t)]
               else [(key_name, t)]))
   \<subseteq> {key_name, key_email, key_phone}"
  by (simp add: keys_store_phone keys_update keys_Cons keys_Nil)

lemma build_properties_loops:
  "build_properties isdigit r sch =
     rich_text_loop sch
       [(key_career, dict_get r key_career),
        (key_education, dict_get r key_education),
        (key_employer, dict_get r key_employer),
        (key_duties, dict_get r key_duties),
        (key_skills, dict_get r key_skills),
        (key_position, dict_get r key_position)]
       (select_loop sch
          [(key_age, dict_get r key_age), (key_gender, dict_get r key_gender)]
          (if truthy (dict_get r key_phone)
           then store_phone (format_phone isdigit (dict_get r key_phone))
                  (if truthy (dict_get r key_email)
                   then AList.update key_email (Email (dict_get r key_email))
                          (if truthy (dict_get r key_name)
                           then [(key_name, Title (py_str (dict_get r key_name)))] else [])
                   else (if truthy (dict_get r key_name)
                         then [(key_name, Title (py_str (dict_get r key_name)))] else []))
           else (if truthy (dict_get r key_email)
                 then AList.update key_email (Email (dict_get r key_email))
                        (if truthy (dict_get r key_name)
                         then [(key_name, Title (py_str (dict_get r key_name)))] else [])
                 else (if truthy (dict_get r key_name)
                       then [(key_name, Title (py_str (dict_get r key_name)))] else []))))"
  unfolding build_properties_def Let_def
  by (simp only: AList.update.simps)



lemma keys_initial_parser:
  "keys (if truthy (dict_get r key_phone)
         then store_phone p
                (if truthy (dict_get r key_email)
                 then AList.update key_email e (if c then [(key_name, t)] else [])
                 else (if c then [(key_name, t)] else []))
         else (if truthy (dict_get r key_email)
               then AList.update key_email e (if c then [(key_name, t)] else [])
               else (if c then [(key_name, t)] else [])))
   \<subseteq> {key_name, key_email, key_phone}"
  by (simp add: keys_store_phone keys_update keys_Cons keys_Nil)





lemma map_of_if: "map_of (if c then a else b) k = (if c then map_of a k else map_of b k)"
  by simp




text \<open>What a loop leaves under a key.\<close>

lemma map_of_None_if_not_key: "k \<notin> fst ` set fs \<Longrightarrow> map_of fs k = None"
  by (simp add: map_of_eq_None_iff)

lemma map_of_select_field_other:
  "k \<noteq> f \<Longrightarrow> map_of (select_field sch f v props) k = map_of props k"
  by (simp add: map_of_select_field)

lemma map_of_select_field_cong:
  "map_of X k = map_of Y k \<Longrightarrow>
   map_of (select_field sch f v X) k = map_of (select_field sch f v Y) k"
  by (simp add: map_of_select_field)

lemma map_of_rich_text_field_other:
  "k \<noteq> f \<Longrightarrow> map_of (rich_text_field sch f v props) k = map_of props k"
  by (simp add: map_of_rich_text_field)

lemma map_of_rich_text_field_cong:
  assumes "map_of X k = map_of Y k"
  shows "map_of (rich_text_field sch f v X) k = map_of (rich_text_field sch f v Y) k"
  unfolding map_of_rich_text_field assms ..

lemma map_of_select_loop:
  "distinct (map fst fs) \<Longrightarrow>
   map_of (select_loop sch fs props) k =
     (case map_of fs k of
        None \<Rightarrow> map_of props k
      | Some v \<Rightarrow> if truthy v then map_of (select_field sch k v props) k else map_of props k)"
proof (induction fs arbitrary: props)
  case Nil
  show ?case by simp
next
  case (Cons a fs)
  obtain f v where a: "a = (f, v)" by (cases a)
  from Cons.prems have d: "distinct (map fst fs)" and n: "f \<notin> fst ` set fs"
    by (simp_all add: a)
  let ?P = "if truthy v then select_field sch f v props else props"
  show ?case
  proof (cases "k = f")
    case True
    then show ?thesis
      unfolding a select_loop.simps Cons.IH [OF d]
      by (simp add: map_of_None_if_not_key [OF n])
  next
    case False
    then have p: "map_of ?P k = map_of props k"
      by (simp add: map_of_select_field_other)
    have q: "map_of (select_field sch k v' ?P) k = map_of (select_field sch k v' props) k" for v'
      by (rule map_of_select_field_cong) (rule p)
    from False show ?thesis
      unfolding a select_loop.simps Cons.IH [OF d] p q
      by simp
  qed
qed

lemma map_of_rich_text_loop:
  "distinct (map fst fs) \<Longrightarrow>
   map_of (rich_text_loop sch fs props) k =
     (case map_of fs k of
        None \<Rightarrow> map_of props k
      | Some v \<Rightarrow> if truthy v then map_of (rich_text_field sch k v props) k else map_of props k)"
proof (induction fs arbitrary: props)
  case Nil
  show ?case by simp
next
  case (Cons a fs)
  obtain f v where a: "a = (f, v)" by (cases a)
  from Cons.prems have d: "distinct (map fst fs)" and n: "f \<notin> fst ` set fs"
    by (simp_all add: a)
  let ?P = "if truthy v then rich_text_field sch f v props else props"
  show ?case
  proof (cases "k = f")
    case True
    then show ?thesis
      unfolding a rich_text_loop.simps Cons.IH [OF d]
      by (simp add: map_of_None_if_not_key [OF n])
  next
    case False
    then have p: "map_of ?P k = map_of props k"
      by (simp add: map_of_rich_text_field_other)
    have q: "map_of (rich_text_field sch k v' ?P) k = map_of (rich_text_field sch k v' props) k"
      for v'
      by (rule map_of_rich_text_field_cong) (rule p)
    from False show ?thesis
      unfolding a rich_text_loop.simps Cons.IH [OF d] p q
      by simp
  qed
qed

lemma map_of_not_key: "k \<notin> keys d \<Longrightarrow> map_of d k = None"
  by (simp add: keys_def map_of_eq_None_iff)

text \<open>
  What the two loops leave under the keys of the fields with two spellings and of the
  position, when the properties before the loops hold name, e-mail and phone at most.
\<close>

lemma map_of_loops_age:
  assumes "keys base \<subseteq> {key_name, key_email, key_phone}"
  shows "map_of (rich_text_loop sch
       [(key_career, c), (key_education, e), (key_employer, m), (key_duties, d),
        (key_skills, s), (key_position, p)]
       (select_loop sch [(key_age, a), (key_gender, g)] base)) key_age
     = (if truthy a \<and> map_of sch key_age = Some (ascii ''select'')
        then Some (Select (py_str a)) else None)"
proof -
  have "key_age \<notin> keys base"
    using assms by auto
  then have "map_of base key_age = None"
    by (rule map_of_not_key)
  then show ?thesis
    by (simp add: map_of_rich_text_loop map_of_select_loop map_of_select_field
        del: select_loop.simps rich_text_loop.simps)
qed

lemma map_of_loops_education:
  assumes "keys base \<subseteq> {key_name, key_email, key_phone}"
  shows "map_of (rich_text_loop sch
       [(key_career, c), (key_education, e), (key_employer, m), (key_duties, d),
        (key_skills, s), (key_position, p)]
       (select_loop sch [(key_age, a), (key_gender, g)] base)) key_education
     = (if truthy e \<and> map_of sch key_education = Some (ascii ''rich_text'')
        then Some (RichText (py_str e)) else None)"
proof -
  have "key_education \<notin> keys base"
    using assms by auto
  then have "map_of base key_education = None"
    by (rule map_of_not_key)
  then show ?thesis
    by (simp add: map_of_rich_text_loop map_of_select_loop map_of_rich_text_field
        del: select_loop.simps rich_text_loop.simps)
qed

lemma map_of_loops_position:
  assumes "keys base \<subseteq> {key_name, key_email, key_phone}"
  shows "map_of (rich_text_loop sch
       [(key_career, c), (key_education, e), (key_employer, m), (key_duties, d),
        (key_skills, s), (key_position, p)]
       (select_loop sch [(key_age, a), (key_gender, g)] base)) key_position
     = (if truthy p \<and> map_of sch key_position = Some (ascii ''rich_text'')
        then Some (RichText (py_str p))
        else if truthy p \<and> map_of sch key_position = Some (ascii ''multi_select'')
        then Some (MultiSelect (choices (py_str p))) else None)"
proof -
  have "key_position \<notin> keys base"
    using assms by auto
  then have "map_of base key_position = None"
    by (rule map_of_not_key)
  then show ?thesis
    by (simp add: map_of_rich_text_loop map_of_select_loop map_of_rich_text_field
        del: select_loop.simps rich_text_loop.simps)
qed

lemma map_of_loops_phone:
  "map_of (rich_text_loop sch
       [(key_career, c), (key_education, e), (key_employer, m), (key_duties, d),
        (key_skills, s), (key_position, p)]
       (select_loop sch [(key_age, a), (key_gender, g)] base)) key_phone
     = map_of base key_phone"
  by (simp add: map_of_rich_text_loop map_of_select_loop
      del: select_loop.simps rich_text_loop.simps)

text \<open>The position in the property set of either mapper.\<close>

lemma build_properties_position:
  "map_of (build_properties isdigit r sch) key_position
     = (if truthy (dict_get r key_position) \<and> map_of sch key_position = Some (ascii ''rich_text'')
        then Some (RichText (py_str (dict_get r key_position)))
        else if truthy (dict_get r key_position)
                \<and> map_of sch key_position = Some (ascii ''multi_select'')
        then Some (MultiSelect (choices (py_str (dict_get r key_position)))) else None)"
  unfolding build_properties_loops
  by (rule map_of_loops_position) (rule keys_initial_parser)

lemma NotionUploader_build_properties_position:
  assumes "db_info self = Some sch"
    and "NotionUploader_build_properties isdigit self r = Inr props"
  shows "map_of props key_position
     = (if truthy (dict_get r key_position) \<and> map_of sch key_position = Some (ascii ''rich_text'')
        then Some (RichText (py_str (dict_get r key_position)))
        else if truthy (dict_get r key_position)
                \<and> map_of sch key_position = Some (ascii ''multi_select'')
        then Some (MultiSelect (choices (py_str (dict_get r key_position)))) else None)"
proof -
  from assms(2) obtain name where name: "dict_item r key_name = Inr name"
    by (cases "dict_item r key_name") (simp_all add: NotionUploader_build_properties_def)
  have v: "NotionUploader_value r key_position = dict_get r key_position"
    by (simp add: NotionUploader_value_def)
  from assms(2) show ?thesis
    unfolding NotionUploader_build_properties_Some [OF assms(1)] name sum.case v
    using map_of_loops_position [OF keys_initial]
    by (auto simp del: select_loop.simps rich_text_loop.simps)
qed

lemma choices_example:
  "choices (ascii ''Backend, Frontend ,  '') = [ascii ''Backend'', ascii ''Frontend'']"
  by (simp add: choices_def strip_def isspace_def ascii_def)

text \<open>Age and education in the property set of either mapper.\<close>

lemma build_properties_age:
  "map_of (build_properties isdigit r sch) key_age
     = (if truthy (dict_get r key_age) \<and> map_of sch key_age = Some (ascii ''select'')
        then Some (Select (py_str (dict_get r key_age))) else None)"
  unfolding build_properties_loops
  by (rule map_of_loops_age) (rule keys_initial_parser)

lemma build_properties_education:
  "map_of (build_properties isdigit r sch) key_education
     = (if truthy (dict_get r key_education) \<and> map_of sch key_education = Some (ascii ''rich_text'')
        then Some (RichText (py_str (dict_get r key_education))) else None)"
  unfolding build_properties_loops
  by (rule map_of_loops_education) (rule keys_initial_parser)

lemma NotionUploader_build_properties_age:
  assumes "db_info self = Some sch"
    and "NotionUploader_build_properties isdigit self r = Inr props"
  shows "map_of props key_age
     = (if truthy (NotionUploader_value r key_age) \<and> map_of sch key_age = Some (ascii ''select'')
        then Some (Select (py_str (NotionUploader_value r key_age))) else None)"
proof -
  from assms(2) obtain name where name: "dict_item r key_name = Inr name"
    by (cases "dict_item r key_name") (simp_all add: NotionUploader_build_properties_def)
  from assms(2) show ?thesis
    unfolding NotionUploader_build_properties_Some [OF assms(1)] name sum.case
    using map_of_loops_age [OF keys_initial]
    by (auto simp del: select_loop.simps rich_text_loop.simps)
qed

lemma NotionUploader_build_properties_education:
  assumes "db_info self = Some sch"
    and "NotionUploader_build_properties isdigit self r = Inr props"
  shows "map_of props key_education
     = (if truthy (NotionUploader_value r key_education)
           \<and> map_of sch key_education = Some (ascii ''rich_text'')
        then Some (RichText (py_str (NotionUploader_value r key_education))) else None)"
proof -
  from assms(2) obtain name where name: "dict_item r key_name = Inr name"
    by (cases "dict_item r key_name") (simp_all add: NotionUploader_build_properties_def)
  from assms(2) show ?thesis
    unfolding NotionUploader_build_properties_Some [OF assms(1)] name sum.case
    using map_of_loops_education [OF keys_initial]
    by (auto simp del: select_loop.simps rich_text_loop.simps)
qed

lemma truthy_py_or: "truthy (py_or a b) \<longleftrightarrow> truthy a \<or> truthy b"
  by (simp add: py_or_def)

text \<open>Records that do not use the older spellings.\<close>

lemma py_or_not_truthy: "\<not> truthy a \<Longrightarrow> py_or a b = b"
  by (simp add: py_or_def)

lemma NotionUploader_value_canonical:
  assumes "\<not> truthy (dict_get r key_age_paren)" "\<not> truthy (dict_get r key_education_school)"
  shows "NotionUploader_value r k = dict_get r k"
  using assms by (simp add: NotionUploader_value_def py_or_not_truthy)

text \<open>The loops of the web application leave the other keys alone.\<close>

lemma NotionUploader_select_loop_other:
  "NotionUploader_select_loop self fs props = Inr props' \<Longrightarrow> k \<notin> fst ` set fs \<Longrightarrow>
   map_of props' k = map_of props k"
proof (induction fs arbitrary: props)
  case Nil
  then show ?case by simp
next
  case (Cons a fs)
  obtain f v where a: "a = (f, v)" by (cases a)
  from Cons.prems(2) have k: "k \<noteq> f" "k \<notin> fst ` set fs"
    by (simp_all add: a)
  show ?case
  proof (cases "truthy v")
    case False
    with Cons.prems(1) Cons.IH [OF _ k(2)] show ?thesis
      by (simp add: a)
  next
    case True
    with Cons.prems(1) obtain sch where s: "db_properties self = Inr sch"
      by (cases "db_properties self") (simp_all add: a)
    with True Cons.prems(1)
    have "NotionUploader_select_loop self fs (select_field sch f v props) = Inr props'"
      by (simp add: a)
    from Cons.IH [OF this k(2)] k(1) show ?thesis
      by (simp add: map_of_select_field_other)
  qed
qed

lemma NotionUploader_rich_text_loop_other:
  "NotionUploader_rich_text_loop self fs props = Inr props' \<Longrightarrow> k \<notin> fst ` set fs \<Longrightarrow>
   map_of props' k = map_of props k"
proof (induction fs arbitrary: props)
  case Nil
  then show ?case by simp
next
  case (Cons a fs)
  obtain f v where a: "a = (f, v)" by (cases a)
  from Cons.prems(2) have k: "k \<noteq> f" "k \<notin> fst ` set fs"
    by (simp_all add: a)
  show ?case
  proof (cases "truthy v")
    case False
    with Cons.prems(1) Cons.IH [OF _ k(2)] show ?thesis
      by (simp add: a)
  next
    case True
    with Cons.prems(1) obtain sch where s: "db_properties self = Inr sch"
      by (cases "db_properties self") (simp_all add: a)
    with True Cons.prems(1)
    have "NotionUploader_rich_text_loop self fs (rich_text_field sch f v props) = Inr props'"
      by (simp add: a)
    from Cons.IH [OF this k(2)] k(1) show ?thesis
      by (simp add: map_of_rich_text_field_other)
  qed
qed

text \<open>The phone in the property set of either mapper.\<close>

lemma store_phone_update:
  "store_phone phone properties = AList.update key_phone (PhoneNumber phone) properties"
  by (simp add: store_phone_def setitem_def)

lemma build_properties_phone:
  "map_of (build_properties isdigit r sch) key_phone
     = (if truthy (dict_get r key_phone)
        then Some (PhoneNumber (format_phone isdigit (dict_get r key_phone))) else None)"
  unfolding build_properties_loops map_of_loops_phone
  by (simp only: map_of_if map_of_store_phone AList.update_conv' map_of.simps fun_upd_apply
      fst_conv snd_conv) simp

lemma NotionUploader_build_properties_phone:
  assumes "NotionUploader_build_properties isdigit self r = Inr props"
  shows "map_of props key_phone
     = (if truthy (dict_get r key_phone)
        then Some (PhoneNumber (NotionUploader_format_phone isdigit (dict_get r key_phone)))
        else None)"
proof -
  from assms obtain name where name: "dict_item r key_name = Inr name"
    by (cases "dict_item r key_name") (simp_all add: NotionUploader_build_properties_def)
  let ?base = "if truthy (dict_get r key_phone)
     then store_phone (NotionUploader_format_phone isdigit (dict_get r key_phone))
            (if truthy (dict_get r key_email)
             then AList.update key_email (Email (dict_get r key_email))
                    (AList.update key_name (Title (py_str name)) [])
             else AList.update key_name (Title (py_str name)) [])
     else (if truthy (dict_get r key_email)
           then AList.update key_email (Email (dict_get r key_email))
                  (AList.update key_name (Title (py_str name)) [])
           else AList.update key_name (Title (py_str name)) [])"
  let ?sel = "[(key_age, py_or (dict_get r key_age_paren) (dict_get r key_age)),
              (key_gender, dict_get r key_gender)]"
  let ?rich = "[(key_career, dict_get r key_career),
                (key_education,
                   py_or (dict_get r key_education_school) (dict_get r key_education)),
                (key_employer, dict_get r key_employer),
                (key_duties, dict_get r key_duties),
                (key_skills, dict_get r key_skills),
                (key_position, dict_get r key_position)]"
  from assms obtain mid where
    sel: "NotionUploader_select_loop self ?sel ?base = Inr mid"
    and rich: "NotionUploader_rich_text_loop self ?rich mid = Inr props"
    unfolding NotionUploader_build_properties_def Let_def name sum.case
    by (cases "NotionUploader_select_loop self ?sel ?base") simp_all
  have "map_of props key_phone = map_of mid key_phone"
    by (rule NotionUploader_rich_text_loop_other [OF rich]) simp
  also have "\<dots> = map_of ?base key_phone"
    by (rule NotionUploader_select_loop_other [OF sel]) simp
  also have "\<dots> = (if truthy (dict_get r key_phone)
        then Some (PhoneNumber (NotionUploader_format_phone isdigit (dict_get r key_phone)))
        else None)"
    by (simp only: map_of_if map_of_store_phone AList.update_conv' map_of.simps fun_upd_apply
      fst_conv snd_conv) simp
  finally show ?thesis .
qed

text \<open>The outcomes of \<open>upload_person\<close>, none of them an exception.\<close>

lemma upload_person_cases:
  "upload_person isdigit notion self person_data w =
     (if \<not> truthy (dict_get person_data key_name) then (Inr (False, msg_no_name), w)
      else case NotionUploader_build_properties isdigit self person_data of
             Inl e \<Rightarrow> (Inr (False, msg_upload_failed @ exn_str e), w)
           | Inr properties \<Rightarrow>
              (case pages_create notion (database_id self) properties w of
                 (Inl e, w') \<Rightarrow> (Inr (False, msg_upload_failed @ exn_str e), w')
               | (Inr page, w') \<Rightarrow>
                  (Inr (True, [0x27] @ py_str (dict_get person_data key_name) @ [0x27]
                          @ msg_upload_done), w')))"
proof (cases "truthy (dict_get person_data key_name)")
  case False
  then show ?thesis
    by (simp add: upload_person_def upload_person_try_def)
next
  case True
  note item = dict_item_truthy [OF True]
  show ?thesis
  proof (cases "NotionUploader_build_properties isdigit self person_data")
    case (Inl e)
    with True show ?thesis
      by (simp add: upload_person_def upload_person_try_def)
  next
    case (Inr properties)
    obtain res w' where c: "pages_create notion (database_id self) properties w = (res, w')"
      by (cases "pages_create notion (database_id self) properties w")
    show ?thesis
      by (cases res) (simp_all add: upload_person_def upload_person_try_def True Inr c item)
  qed
qed

lemma upload_person_Inr:
  "\<exists>flag message. fst (upload_person isdigit notion self person_data w) = Inr (flag, message)"
  unfolding upload_person_cases
  by (auto split: sum.split prod.split)






subsection \<open>The phone normalizer\<close>

lemma phone_pattern_format:
  "length ds = 11 \<Longrightarrow> list_all D ds \<Longrightarrow>
   phone_pattern D (take 3 ds @ ascii ''-'' @ take 4 (drop 3 ds) @ ascii ''-'' @ drop 7 ds)"
  apply (simp add: phone_pattern_def ascii_def nth_append list_all_iff)
  apply (auto dest: in_set_takeD in_set_dropD)
  done

lemma regroup_digits: "take 3 ds @ take 4 (drop 3 ds) @ drop 7 ds = ds"
proof -
  have "take 4 (drop 3 ds) @ drop 4 (drop 3 ds) = drop 3 ds"
    by (rule append_take_drop_id)
  then have "take 4 (drop 3 ds) @ drop 7 ds = drop 3 ds"
    by simp
  then show ?thesis by simp
qed

lemma filter_format:
  assumes "\<not> D 0x2D" "list_all D ds"
  shows "filter D (take 3 ds @ ascii ''-'' @ take 4 (drop 3 ds) @ ascii ''-'' @ drop 7 ds) = ds"
proof -
  have a: "filter D (take 3 ds) = take 3 ds" "filter D (take 4 (drop 3 ds)) = take 4 (drop 3 ds)"
     "filter D (drop 7 ds) = drop 7 ds"
    using assms(2) by (auto simp: list_all_iff filter_id_conv dest: in_set_takeD in_set_dropD)
  have b: "filter D (ascii ''-'') = []"
    using assms(1) by (simp add: ascii_def)
  show ?thesis
    by (simp only: filter_append a b append_Nil regroup_digits)
qed


text \<open>
  Claim C4. For every input string both normalizers agree and return: when the characters
  that \<open>str.isdigit\<close> accepts are exactly 11 and begin with \<open>010\<close>, these characters as
  three, four and four with a hyphen between the groups, and otherwise the input string
  itself. The formatted output then has the shape \<open>D{3}-D{4}-D{4}\<close> for \<open>D\<close> the characters
  \<open>str.isdigit\<close> accepts; its digit sequence is the input's (a hyphen is not a digit); and
  it matches the pattern over the ASCII digits when the 11 characters are ASCII digits.
\<close>

theorem format_phone_cases:
  "NotionUploader_format_phone isdigit (PStr phone) = format_phone isdigit (PStr phone)
   \<and> (let digits = filter isdigit phone in
        if length digits = 11 \<and> take 3 digits = ascii ''010''
        then format_phone isdigit (PStr phone)
               = take 3 digits @ ascii ''-'' @ take 4 (drop 3 digits) @ ascii ''-'' @ drop 7 digits
             \<and> phone_pattern isdigit (format_phone isdigit (PStr phone))
             \<and> (\<not> isdigit 0x2D \<longrightarrow> filter isdigit (format_phone isdigit (PStr phone)) = digits)
             \<and> (list_all ascii_digit digits \<longrightarrow>
                  phone_pattern ascii_digit (format_phone isdigit (PStr phone)))
        else format_phone isdigit (PStr phone) = phone)"
proof -
  let ?ds = "filter isdigit phone"
  have same: "NotionUploader_format_phone isdigit (PStr phone) = format_phone isdigit (PStr phone)"
    by (simp add: NotionUploader_format_phone_def format_phone_def)
  have all: "list_all isdigit ?ds"
    by (simp add: list_all_iff)
  show ?thesis
  proof (cases "length ?ds = 11 \<and> take 3 ?ds = ascii ''010''")
    case True
    then have eq: "format_phone isdigit (PStr phone)
        = take 3 ?ds @ ascii ''-'' @ take 4 (drop 3 ?ds) @ ascii ''-'' @ drop 7 ?ds"
      by (simp add: format_phone_def Let_def)
    have "phone_pattern isdigit (format_phone isdigit (PStr phone))"
      unfolding eq using True all by (intro phone_pattern_format) simp_all
    moreover have "\<not> isdigit 0x2D \<longrightarrow> filter isdigit (format_phone isdigit (PStr phone)) = ?ds"
      unfolding eq using all by (intro impI filter_format) simp_all
    moreover have "list_all ascii_digit ?ds \<longrightarrow>
        phone_pattern ascii_digit (format_phone isdigit (PStr phone))"
      unfolding eq using True by (intro impI phone_pattern_format) simp_all
    ultimately show ?thesis
      using True same eq by (simp add: Let_def)
  next
    case False
    then have "format_phone isdigit (PStr phone) = phone"
      by (auto simp add: format_phone_def Let_def)
    with False same show ?thesis
      by (auto simp add: Let_def)
  qed
qed

text \<open>The theorem at \<open>010-1234-5678\<close>, with the Latin-1 part of the digit table.\<close>

theorem format_phone_cases_witness:
  "length (filter isdigit_latin1 (ascii ''010-1234-5678'')) = 11
   \<and> take 3 (filter isdigit_latin1 (ascii ''010-1234-5678'')) = ascii ''010''
   \<and> \<not> isdigit_latin1 0x2D
   \<and> list_all ascii_digit (filter isdigit_latin1 (ascii ''010-1234-5678''))
   \<and> filter isdigit_latin1 (format_phone isdigit_latin1 (PStr (ascii ''010-1234-5678'')))
       = filter isdigit_latin1 (ascii ''010-1234-5678'')
   \<and> phone_pattern ascii_digit (format_phone isdigit_latin1 (PStr (ascii ''010-1234-5678'')))"
  using format_phone_cases [of isdigit_latin1 "ascii ''010-1234-5678''"]
  by (simp add: ascii_def isdigit_latin1_def ascii_digit_def phone_pattern_def Let_def)

text \<open>
  Superscript two is a digit for \<open>str.isdigit\<close> and not for \<open>\d\<close>: an input with the eleven
  digits \<open>0101234567\<close> and U+00B2 is formatted, and the output does not match
  \<open>\d{3}-\d{4}-\d{4}\<close>.
\<close>

theorem format_phone_pattern_counterexample:
  "length (filter isdigit_latin1 (ascii ''010-1234-567'' @ [0xB2])) = 11
   \<and> take 3 (filter isdigit_latin1 (ascii ''010-1234-567'' @ [0xB2])) = ascii ''010''
   \<and> format_phone isdigit_latin1 (PStr (ascii ''010-1234-567'' @ [0xB2]))
       = ascii ''010-1234-567'' @ [0xB2]
   \<and> \<not> phone_pattern ascii_digit
         (format_phone isdigit_latin1 (PStr (ascii ''010-1234-567'' @ [0xB2])))"
  by (simp add: format_phone_def ascii_def isdigit_latin1_def ascii_digit_def phone_pattern_def)

subsection \<open>The fields of a property set\<close>




subsection \<open>Records without a name\<close>




subsection \<open>The connection test\<close>

text \<open>
  Claim C7. Whatever \<open>databases.retrieve\<close> does, \<open>test_connection\<close> raises nothing: when
  the call raises (an invalid identifier, a credential without access, a network error),
  the exception is caught and the function returns \<open>False\<close> with the connection-failure
  message followed by \<open>str\<close> of the exception, leaving \<open>db_info\<close> as it was; when the call
  returns, the function stores the database and returns \<open>True\<close>.
\<close>

theorem test_connection_returns:
  "test_connection notion self w =
     (case databases_retrieve notion (database_id self) w of
        (Inl e, w') \<Rightarrow> (Inr (False, msg_connect_failed @ exn_str e), self, w')
      | (Inr info, w') \<Rightarrow> (Inr (True, msg_connected), self\<lparr>db_info := Some info\<rparr>, w'))
   \<and> (\<exists>flag message. fst (test_connection notion self w) = Inr (flag, message))"
proof -
  obtain res w' where r: "databases_retrieve notion (database_id self) w = (res, w')"
    by (cases "databases_retrieve notion (database_id self) w")
  show ?thesis
    by (cases res) (auto simp add: test_connection_def r)
qed

text \<open>The theorem with a client that raises, and with one that answers.\<close>

theorem test_connection_returns_witness:
  "test_connection (raising_client (APIError (ascii ''unauthorized''))) (init_uploader (ascii ''db'')) ()
     = (Inr (False, msg_connect_failed @ ascii ''unauthorized''), init_uploader (ascii ''db''), ())
   \<and> test_connection (recording_client [(key_gender, ascii ''select'')]) (init_uploader (ascii ''db'')) []
     = (Inr (True, msg_connected),
        \<lparr>database_id = ascii ''db'', db_info = Some [(key_gender, ascii ''select'')]\<rparr>, [])"
  using test_connection_returns [of "raising_client (APIError (ascii ''unauthorized''))"
      "init_uploader (ascii ''db'')" "()"]
    test_connection_returns [of "recording_client [(key_gender, ascii ''select'')]"
      "init_uploader (ascii ''db'')" "[]"]
  by (simp add: raising_client_def recording_client_def init_uploader_def)

text \<open>
  The error of the retrieval does not reach the caller as an exception: with a client
  whose retrieval raises, \<open>test_connection\<close> returns a pair.
\<close>

theorem test_connection_catches_counterexample:
  "fst (databases_retrieve (raising_client (APIError (ascii ''unauthorized''))) (ascii ''db'') ())
     = Inl (APIError (ascii ''unauthorized''))
   \<and> fst (test_connection (raising_client (APIError (ascii ''unauthorized'')))
          (init_uploader (ascii ''db'')) ())
     = Inr (False, msg_connect_failed @ ascii ''unauthorized'')
   \<and> fst (test_connection (raising_client (APIError (ascii ''unauthorized'')))
          (init_uploader (ascii ''db'')) ())
     \<noteq> Inl (APIError (ascii ''unauthorized''))"
  by (simp add: test_connection_def raising_client_def init_uploader_def)

subsection \<open>The upload of one record\<close>

text \<open>
  Claim C8. For every record and every behaviour of \<open>pages.create\<close>, \<open>upload_person\<close>
  raises nothing and returns a pair of a flag and a message. On success the message is the
  name of the record between apostrophes followed by the completion text. On failure the
  message is the missing-name text when the name is unusable, and otherwise the
  upload-failure prefix followed by \<open>str\<close> of the exception that the mapper or
  \<open>pages.create\<close> raised.
\<close>

theorem upload_person_returns:
  "upload_person isdigit notion self person_data w =
     (if \<not> truthy (dict_get person_data key_name) then (Inr (False, msg_no_name), w)
      else case NotionUploader_build_properties isdigit self person_data of
             Inl e \<Rightarrow> (Inr (False, msg_upload_failed @ exn_str e), w)
           | Inr properties \<Rightarrow>
              (case pages_create notion (database_id self) properties w of
                 (Inl e, w') \<Rightarrow> (Inr (False, msg_upload_failed @ exn_str e), w')
               | (Inr page, w') \<Rightarrow>
                  (Inr (True, [0x27] @ py_str (dict_get person_data key_name) @ [0x27]
                          @ msg_upload_done), w')))
   \<and> (\<exists>flag message. fst (upload_person isdigit notion self person_data w) = Inr (flag, message))"
  using upload_person_cases [of isdigit notion self person_data w]
    upload_person_Inr [of isdigit notion self person_data w]
  by (rule conjI)

text \<open>
  The theorem at a record that is uploaded, and at one whose mapping raises because no
  database was retrieved.
\<close>

theorem upload_person_returns_witness:
  "upload_person isdigit_latin1 (recording_client [])
      \<lparr>database_id = ascii ''db'', db_info = Some []\<rparr> [(key_name, PStr (ascii ''A''))] []
     = (Inr (True, [0x27] @ ascii ''A'' @ [0x27] @ msg_upload_done),
        [[(key_name, Title (ascii ''A''))]])
   \<and> upload_person isdigit_latin1 (recording_client [])
      \<lparr>database_id = ascii ''db'', db_info = None\<rparr>
      [(key_name, PStr (ascii ''A'')), (key_gender, PStr (ascii ''F''))] []
     = (Inr (False, msg_upload_failed @ [0x27] @ ascii ''NoneType'' @ [0x27]
                      @ ascii '' object is not subscriptable''), [])"
  using upload_person_returns [of isdigit_latin1 "recording_client []"
      "\<lparr>database_id = ascii ''db'', db_info = Some []\<rparr>" "[(key_name, PStr (ascii ''A''))]" "[]"]
    upload_person_returns [of isdigit_latin1 "recording_client []"
      "\<lparr>database_id = ascii ''db'', db_info = None\<rparr>"
      "[(key_name, PStr (ascii ''A'')), (key_gender, PStr (ascii ''F''))]" "[]"]
  by (simp add: eval_defs recording_client_def)

text \<open>
  The failure message is not \<open>str\<close> of the exception alone: the prefix comes first.
\<close>

theorem upload_person_message_counterexample:
  "upload_person isdigit_latin1 (raising_client (APIError (ascii ''boom'')))
      \<lparr>database_id = ascii ''db'', db_info = Some []\<rparr> [(key_name, PStr (ascii ''A''))] ()
     = (Inr (False, msg_upload_failed @ ascii ''boom''), ())
   \<and> exn_str (APIError (ascii ''boom'')) = ascii ''boom''
   \<and> msg_upload_failed @ ascii ''boom'' \<noteq> ascii ''boom''"
  by (simp add: upload_person_def upload_person_try_def eval_defs raising_client_def)

subsection \<open>The upload of a list of records\<close>



subsection \<open>The position as a list of choices\<close>

text \<open>
  Claim C5. For every record whose position has a true value (not null, not empty) and
  every schema that declares the position with kind \<open>multi_select\<close>, both mappers set the
  position to the list of choices got from \<open>str\<close> of the value by splitting at the commas,
  trimming each segment and dropping the empty segments, in the order of the segments.
  The text \<open>Backend, Frontend ,  \<close> gives exactly \<open>Backend\<close> and \<open>Frontend\<close>.
\<close>

theorem position_multi_select:
  "(truthy (dict_get r key_position) \<and> map_of sch key_position = Some (ascii ''multi_select'')
      \<longrightarrow> map_of (build_properties isdigit r sch) key_position
            = Some (MultiSelect (choices (py_str (dict_get r key_position)))))
   \<and> (truthy (dict_get r key_position) \<and> map_of sch key_position = Some (ascii ''multi_select'')
       \<and> db_info self = Some sch \<and> NotionUploader_build_properties isdigit self r = Inr props
      \<longrightarrow> map_of props key_position
            = Some (MultiSelect (choices (py_str (dict_get r key_position)))))
   \<and> choices (ascii ''Backend, Frontend ,  '') = [ascii ''Backend'', ascii ''Frontend'']"
proof (intro conjI impI)
  assume "truthy (dict_get r key_position) \<and> map_of sch key_position = Some (ascii ''multi_select'')"
  then show "map_of (build_properties isdigit r sch) key_position
      = Some (MultiSelect (choices (py_str (dict_get r key_position))))"
    by (simp add: build_properties_position ascii_def)
next
  assume a: "truthy (dict_get r key_position)
     \<and> map_of sch key_position = Some (ascii ''multi_select'')
     \<and> db_info self = Some sch \<and> NotionUploader_build_properties isdigit self r = Inr props"
  then have "map_of props key_position
     = (if truthy (dict_get r key_position) \<and> map_of sch key_position = Some (ascii ''rich_text'')
        then Some (RichText (py_str (dict_get r key_position)))
        else if truthy (dict_get r key_position)
                \<and> map_of sch key_position = Some (ascii ''multi_select'')
        then Some (MultiSelect (choices (py_str (dict_get r key_position)))) else None)"
    using NotionUploader_build_properties_position [of self sch isdigit r props] by blast
  with a show "map_of props key_position
      = Some (MultiSelect (choices (py_str (dict_get r key_position))))"
    by (simp add: ascii_def)
next
  show "choices (ascii ''Backend, Frontend ,  '') = [ascii ''Backend'', ascii ''Frontend'']"
    by (rule choices_example)
qed

text \<open>The theorem at a record with that text as position.\<close>

theorem position_multi_select_witness:
  "truthy (dict_get [(key_name, PStr (ascii ''A'')),
                     (key_position, PStr (ascii ''Backend, Frontend ,  ''))] key_position)
   \<and> map_of [(key_position, ascii ''multi_select'')] key_position = Some (ascii ''multi_select'')
   \<and> db_info \<lparr>database_id = ascii ''db'',
                db_info = Some [(key_position, ascii ''multi_select'')]\<rparr>
       = Some [(key_position, ascii ''multi_select'')]
   \<and> NotionUploader_build_properties isdigit_latin1
         \<lparr>database_id = ascii ''db'', db_info = Some [(key_position, ascii ''multi_select'')]\<rparr>
         [(key_name, PStr (ascii ''A'')), (key_position, PStr (ascii ''Backend, Frontend ,  ''))]
       = Inr [(key_name, Title (ascii ''A'')),
              (key_position, MultiSelect [ascii ''Backend'', ascii ''Frontend''])]
   \<and> map_of (build_properties isdigit_latin1
         [(key_name, PStr (ascii ''A'')), (key_position, PStr (ascii ''Backend, Frontend ,  ''))]
         [(key_position, ascii ''multi_select'')]) key_position
       = Some (MultiSelect [ascii ''Backend'', ascii ''Frontend''])"
proof -
  let ?r = "[(key_name, PStr (ascii ''A'')),
             (key_position, PStr (ascii ''Backend, Frontend ,  ''))]"
  let ?sch = "[(key_position, ascii ''multi_select'')]"
  let ?self = "\<lparr>database_id = ascii ''db'', db_info = Some ?sch\<rparr>"
  let ?props = "[(key_name, Title (ascii ''A'')),
                 (key_position, MultiSelect [ascii ''Backend'', ascii ''Frontend''])]"
  have t: "truthy (dict_get ?r key_position)"
    by (simp add: dict_get_def ascii_def)
  have g: "py_str (dict_get ?r key_position) = ascii ''Backend, Frontend ,  ''"
    by (simp add: dict_get_def)
  have s: "map_of ?sch key_position = Some (ascii ''multi_select'')"
    by simp
  have b: "NotionUploader_build_properties isdigit_latin1 ?self ?r = Inr ?props"
    by (simp add: eval_defs strip_def isspace_def)
  note inst = position_multi_select [of ?r ?sch isdigit_latin1 ?self ?props]
  from inst t s have "map_of (build_properties isdigit_latin1 ?r ?sch) key_position
      = Some (MultiSelect (choices (py_str (dict_get ?r key_position))))"
    by blast
  moreover from inst
  have "choices (ascii ''Backend, Frontend ,  '') = [ascii ''Backend'', ascii ''Frontend'']"
    by blast
  ultimately have p: "map_of (build_properties isdigit_latin1 ?r ?sch) key_position
      = Some (MultiSelect [ascii ''Backend'', ascii ''Frontend''])"
    by (simp only: g)
  have d: "db_info ?self = Some ?sch"
    by simp
  from t s d b p show ?thesis
    by (intro conjI)
qed

text \<open>
  An empty string is not null, and a record with the empty string as position gets no
  position property at all, rather than an empty list of choices.
\<close>

theorem position_empty_counterexample:
  "dict_get [(key_name, PStr (ascii ''A'')), (key_position, PStr [])] key_position = PStr []
   \<and> PStr [] \<noteq> PNone
   \<and> map_of [(key_position, ascii ''multi_select'')] key_position = Some (ascii ''multi_select'')
   \<and> build_properties isdigit_latin1
         [(key_name, PStr (ascii ''A'')), (key_position, PStr [])]
         [(key_position, ascii ''multi_select'')]
       = [(key_name, Title (ascii ''A''))]
   \<and> NotionUploader_build_properties isdigit_latin1
         \<lparr>database_id = ascii ''db'', db_info = Some [(key_position, ascii ''multi_select'')]\<rparr>
         [(key_name, PStr (ascii ''A'')), (key_position, PStr [])]
       = Inr [(key_name, Title (ascii ''A''))]
   \<and> map_of [(key_name, Title (ascii ''A''))] key_position = None"
  by (simp add: eval_defs)

subsection \<open>The two spellings of the age and education keys\<close>

text \<open>
  Claim C6. The mapper of the web application accepts both spellings of the age key and of
  the education key: for every record with a true value under either spelling, the age
  property is set when the schema declares it \<open>select\<close>, and the education property when
  the schema declares it \<open>rich_text\<close>, to \<open>str\<close> of the value (the older spelling first).
  The mapper of the resume parser reads each of the two fields under one key only, the
  one that is also the name of the property.
\<close>

theorem legacy_keys:
  "(db_info self = Some sch \<and> NotionUploader_build_properties isdigit self r = Inr props
      \<and> (truthy (dict_get r key_age_paren) \<or> truthy (dict_get r key_age))
      \<and> map_of sch key_age = Some (ascii ''select'')
    \<longrightarrow> map_of props key_age
          = Some (Select (py_str (py_or (dict_get r key_age_paren) (dict_get r key_age)))))
   \<and> (db_info self = Some sch \<and> NotionUploader_build_properties isdigit self r = Inr props
      \<and> (truthy (dict_get r key_education_school) \<or> truthy (dict_get r key_education))
      \<and> map_of sch key_education = Some (ascii ''rich_text'')
    \<longrightarrow> map_of props key_education
          = Some (RichText (py_str (py_or (dict_get r key_education_school)
                                          (dict_get r key_education)))))
   \<and> map_of (build_properties isdigit r sch) key_age
       = (if truthy (dict_get r key_age) \<and> map_of sch key_age = Some (ascii ''select'')
          then Some (Select (py_str (dict_get r key_age))) else None)
   \<and> map_of (build_properties isdigit r sch) key_education
       = (if truthy (dict_get r key_education)
             \<and> map_of sch key_education = Some (ascii ''rich_text'')
          then Some (RichText (py_str (dict_get r key_education))) else None)"
proof (intro conjI impI)
  assume a: "db_info self = Some sch \<and> NotionUploader_build_properties isdigit self r = Inr props
      \<and> (truthy (dict_get r key_age_paren) \<or> truthy (dict_get r key_age))
      \<and> map_of sch key_age = Some (ascii ''select'')"
  then have v: "truthy (NotionUploader_value r key_age)"
    "NotionUploader_value r key_age = py_or (dict_get r key_age_paren) (dict_get r key_age)"
    by (simp_all add: NotionUploader_value_def truthy_py_or)
  from a NotionUploader_build_properties_age [of self sch isdigit r props]
  have "map_of props key_age
     = (if truthy (NotionUploader_value r key_age) \<and> map_of sch key_age = Some (ascii ''select'')
        then Some (Select (py_str (NotionUploader_value r key_age))) else None)"
    by blast
  with a v show "map_of props key_age
      = Some (Select (py_str (py_or (dict_get r key_age_paren) (dict_get r key_age))))"
    by simp
next
  assume a: "db_info self = Some sch \<and> NotionUploader_build_properties isdigit self r = Inr props
      \<and> (truthy (dict_get r key_education_school) \<or> truthy (dict_get r key_education))
      \<and> map_of sch key_education = Some (ascii ''rich_text'')"
  then have v: "truthy (NotionUploader_value r key_education)"
    "NotionUploader_value r key_education
       = py_or (dict_get r key_education_school) (dict_get r key_education)"
    by (simp_all add: NotionUploader_value_def truthy_py_or)
  from a NotionUploader_build_properties_education [of self sch isdigit r props]
  have "map_of props key_education
     = (if truthy (NotionUploader_value r key_education)
           \<and> map_of sch key_education = Some (ascii ''rich_text'')
        then Some (RichText (py_str (NotionUploader_value r key_education))) else None)"
    by blast
  with a v show "map_of props key_education
      = Some (RichText (py_str (py_or (dict_get r key_education_school)
                                      (dict_get r key_education))))"
    by simp
next
  show "map_of (build_properties isdigit r sch) key_age
       = (if truthy (dict_get r key_age) \<and> map_of sch key_age = Some (ascii ''select'')
          then Some (Select (py_str (dict_get r key_age))) else None)"
    by (rule build_properties_age)
next
  show "map_of (build_properties isdigit r sch) key_education
       = (if truthy (dict_get r key_education)
             \<and> map_of sch key_education = Some (ascii ''rich_text'')
          then Some (RichText (py_str (dict_get r key_education))) else None)"
    by (rule build_properties_education)
qed

text \<open>The theorem at a record that uses the older spellings.\<close>

theorem legacy_keys_witness:
  "db_info \<lparr>database_id = ascii ''db'',
     db_info = Some [(key_age, ascii ''select''), (key_education, ascii ''rich_text'')]\<rparr>
     = Some [(key_age, ascii ''select''), (key_education, ascii ''rich_text'')]
   \<and> NotionUploader_build_properties isdigit_latin1
       \<lparr>database_id = ascii ''db'',
          db_info = Some [(key_age, ascii ''select''), (key_education, ascii ''rich_text'')]\<rparr>
       [(key_name, PStr (ascii ''A'')), (key_age_paren, PInt 1990),
        (key_education_school, PStr (ascii ''SNU CS''))]
     = Inr [(key_name, Title (ascii ''A'')), (key_age, Select (ascii ''1990'')),
            (key_education, RichText (ascii ''SNU CS''))]
   \<and> truthy (dict_get [(key_name, PStr (ascii ''A'')), (key_age_paren, PInt 1990),
        (key_education_school, PStr (ascii ''SNU CS''))] key_age_paren)
   \<and> truthy (dict_get [(key_name, PStr (ascii ''A'')), (key_age_paren, PInt 1990),
        (key_education_school, PStr (ascii ''SNU CS''))] key_education_school)
   \<and> map_of [(key_age, ascii ''select''), (key_education, ascii ''rich_text'')] key_age
       = Some (ascii ''select'')
   \<and> map_of [(key_age, ascii ''select''), (key_education, ascii ''rich_text'')] key_education
       = Some (ascii ''rich_text'')
   \<and> map_of [(key_name, Title (ascii ''A'')), (key_age, Select (ascii ''1990'')),
            (key_education, RichText (ascii ''SNU CS''))] key_age
       = Some (Select (ascii ''1990''))
   \<and> map_of [(key_name, Title (ascii ''A'')), (key_age, Select (ascii ''1990'')),
            (key_education, RichText (ascii ''SNU CS''))] key_education
       = Some (RichText (ascii ''SNU CS''))"
proof -
  let ?sch = "[(key_age, ascii ''select''), (key_education, ascii ''rich_text'')]"
  let ?self = "\<lparr>database_id = ascii ''db'', db_info = Some ?sch\<rparr>"
  let ?r = "[(key_name, PStr (ascii ''A'')), (key_age_paren, PInt 1990),
        (key_education_school, PStr (ascii ''SNU CS''))]"
  let ?props = "[(key_name, Title (ascii ''A'')), (key_age, Select (ascii ''1990'')),
            (key_education, RichText (ascii ''SNU CS''))]"
  have d: "db_info ?self = Some ?sch"
    by simp
  have b: "NotionUploader_build_properties isdigit_latin1 ?self ?r = Inr ?props"
    by (simp add: eval_defs str_int_def str_nat.simps)
  have t: "truthy (dict_get ?r key_age_paren)" "truthy (dict_get ?r key_education_school)"
    by (simp_all add: dict_get_def ascii_def)
  have s: "map_of ?sch key_age = Some (ascii ''select'')"
    "map_of ?sch key_education = Some (ascii ''rich_text'')"
    by simp_all
  have g: "py_str (py_or (dict_get ?r key_age_paren) (dict_get ?r key_age)) = ascii ''1990''"
    "py_str (py_or (dict_get ?r key_education_school) (dict_get ?r key_education))
       = ascii ''SNU CS''"
    by (simp_all add: dict_get_def py_or_def str_int_def str_nat.simps ascii_def)
  note inst = legacy_keys [where self = ?self and sch = ?sch and isdigit = isdigit_latin1
      and r = ?r and props = ?props]
  from inst d b t(1) s(1) have "map_of ?props key_age
      = Some (Select (py_str (py_or (dict_get ?r key_age_paren) (dict_get ?r key_age))))"
    by blast
  then have a: "map_of ?props key_age = Some (Select (ascii ''1990''))"
    by (simp only: g)
  from inst d b t(2) s(2) have "map_of ?props key_education
      = Some (RichText (py_str (py_or (dict_get ?r key_education_school)
                                      (dict_get ?r key_education))))"
    by blast
  then have e: "map_of ?props key_education = Some (RichText (ascii ''SNU CS''))"
    by (simp only: g)
  from d b t s a e show ?thesis
    by (intro conjI)
qed

text \<open>
  The mapper of the resume parser, on the same record and schema, sets neither property.
\<close>

theorem legacy_keys_parser_counterexample:
  "truthy (dict_get [(key_name, PStr (ascii ''A'')), (key_age_paren, PInt 1990),
        (key_education_school, PStr (ascii ''SNU CS''))] key_age_paren)
   \<and> truthy (dict_get [(key_name, PStr (ascii ''A'')), (key_age_paren, PInt 1990),
        (key_education_school, PStr (ascii ''SNU CS''))] key_education_school)
   \<and> build_properties isdigit_latin1
       [(key_name, PStr (ascii ''A'')), (key_age_paren, PInt 1990),
        (key_education_school, PStr (ascii ''SNU CS''))]
       [(key_age, ascii ''select''), (key_education, ascii ''rich_text'')]
     = [(key_name, Title (ascii ''A''))]
   \<and> map_of [(key_name, Title (ascii ''A''))] key_age = None
   \<and> map_of [(key_name, Title (ascii ''A''))] key_education = None"
  by (simp add: eval_defs)

subsection \<open>The two mappers on the same record\<close>

text \<open>
  Claim C9. For every record whose name is a true value (not null, not empty) and that has
  no true value under the older spellings of the age and education keys (in particular
  when it does not use these keys), and for every schema, \<open>NotionUploader._build_properties\<close>
  of an uploader holding the schema returns the property set that \<open>_build_properties\<close> of
  the resume parser builds, in the same order.
\<close>

theorem mappers_agree:
  assumes "truthy (dict_get r key_name)"
    and "\<not> truthy (dict_get r key_age_paren)"
    and "\<not> truthy (dict_get r key_education_school)"
    and "db_info self = Some sch"
  shows "NotionUploader_build_properties isdigit self r = Inr (build_properties isdigit r sch)"
  unfolding NotionUploader_build_properties_Some [OF assms(4)] build_properties_loops
    dict_item_truthy [OF assms(1)] NotionUploader_value_canonical [OF assms(2,3)]
  using assms(1) by (simp only: sum.case if_True)

text \<open>The theorem at a record with name, age and phone.\<close>

theorem mappers_agree_witness:
  "truthy (dict_get [(key_name, PStr (ascii ''A'')), (key_age, PStr (ascii ''1990'')),
                     (key_phone, PStr (ascii ''01012345678''))] key_name)
   \<and> \<not> truthy (dict_get [(key_name, PStr (ascii ''A'')), (key_age, PStr (ascii ''1990'')),
                     (key_phone, PStr (ascii ''01012345678''))] key_age_paren)
   \<and> \<not> truthy (dict_get [(key_name, PStr (ascii ''A'')), (key_age, PStr (ascii ''1990'')),
                     (key_phone, PStr (ascii ''01012345678''))] key_education_school)
   \<and> db_info \<lparr>database_id = ascii ''db'', db_info = Some [(key_age, ascii ''select'')]\<rparr>
       = Some [(key_age, ascii ''select'')]
   \<and> NotionUploader_build_properties isdigit_latin1
         \<lparr>database_id = ascii ''db'', db_info = Some [(key_age, ascii ''select'')]\<rparr>
         [(key_name, PStr (ascii ''A'')), (key_age, PStr (ascii ''1990'')),
          (key_phone, PStr (ascii ''01012345678''))]
       = Inr [(key_name, Title (ascii ''A'')), (key_phone, PhoneNumber (ascii ''010-1234-5678'')),
              (key_age, Select (ascii ''1990''))]"
proof -
  let ?r = "[(key_name, PStr (ascii ''A'')), (key_age, PStr (ascii ''1990'')),
             (key_phone, PStr (ascii ''01012345678''))]"
  let ?sch = "[(key_age, ascii ''select'')]"
  let ?self = "\<lparr>database_id = ascii ''db'', db_info = Some ?sch\<rparr>"
  have n: "truthy (dict_get ?r key_name)"
    by (simp add: dict_get_def ascii_def)
  have a: "\<not> truthy (dict_get ?r key_age_paren)"
    by (simp add: dict_get_def)
  have e: "\<not> truthy (dict_get ?r key_education_school)"
    by (simp add: dict_get_def)
  have d: "db_info ?self = Some ?sch"
    by simp
  have p: "build_properties isdigit_latin1 ?r ?sch
      = [(key_name, Title (ascii ''A'')), (key_phone, PhoneNumber (ascii ''010-1234-5678'')),
         (key_age, Select (ascii ''1990''))]"
    by (simp add: eval_defs)
  from mappers_agree [OF n a e d, of isdigit_latin1]
  have "NotionUploader_build_properties isdigit_latin1 ?self ?r
      = Inr [(key_name, Title (ascii ''A'')), (key_phone, PhoneNumber (ascii ''010-1234-5678'')),
             (key_age, Select (ascii ''1990''))]"
    by (simp only: p)
  with n a e d show ?thesis
    by (intro conjI)
qed

text \<open>
  With the empty string as name, which is not null, the web application's mapper writes a
  title with empty content and the parser's mapper writes no title.
\<close>

theorem mappers_differ_empty_name_counterexample:
  "dict_get [(key_name, PStr [])] key_name = PStr []
   \<and> PStr [] \<noteq> PNone
   \<and> map_of [(key_name, PStr [])] key_age_paren = None
   \<and> map_of [(key_name, PStr [])] key_education_school = None
   \<and> NotionUploader_build_properties isdigit_latin1
         \<lparr>database_id = ascii ''db'', db_info = Some []\<rparr> [(key_name, PStr [])]
       = Inr [(key_name, Title [])]
   \<and> build_properties isdigit_latin1 [(key_name, PStr [])] [] = []
   \<and> Inr [(key_name, Title [])] \<noteq> (Inr [] :: pyexn + properties)"
  by (simp add: eval_defs)

subsection \<open>The phone property\<close>

text \<open>
  Claim C10. The \<open>rich_text\<close> branch of the phone block is never taken: the store under
  \<open>try\<close> is a dictionary store, which returns, so the block amounts to that store. For every
  record whose phone is a true value (not null, not empty), both mappers map the phone to
  the \<open>phone_number\<close> payload with the normalized string; for every other record the
  property set has no phone; and in no case is the phone mapped to a \<open>rich_text\<close> payload.
\<close>

theorem phone_never_rich_text:
  "map_of (build_properties isdigit r sch) key_phone
     = (if truthy (dict_get r key_phone)
        then Some (PhoneNumber (format_phone isdigit (dict_get r key_phone))) else None)
   \<and> map_of (build_properties isdigit r sch) key_phone \<noteq> Some (RichText s)
   \<and> (NotionUploader_build_properties isdigit self r = Inr props \<longrightarrow>
        map_of props key_phone
          = (if truthy (dict_get r key_phone)
             then Some (PhoneNumber (NotionUploader_format_phone isdigit (dict_get r key_phone)))
             else None)
        \<and> map_of props key_phone \<noteq> Some (RichText s))
   \<and> store_phone phone properties = AList.update key_phone (PhoneNumber phone) properties
   \<and> (\<exists>properties'. setitem properties k v = Inr properties')"
proof (intro conjI impI)
  show "map_of (build_properties isdigit r sch) key_phone
     = (if truthy (dict_get r key_phone)
        then Some (PhoneNumber (format_phone isdigit (dict_get r key_phone))) else None)"
    by (rule build_properties_phone)
  show "map_of (build_properties isdigit r sch) key_phone \<noteq> Some (RichText s)"
    by (simp add: build_properties_phone)
  show "store_phone phone properties = AList.update key_phone (PhoneNumber phone) properties"
    by (rule store_phone_update)
  show "\<exists>properties'. setitem properties k v = Inr properties'"
    by (simp add: setitem_def)
next
  assume a: "NotionUploader_build_properties isdigit self r = Inr props"
  show "map_of props key_phone
          = (if truthy (dict_get r key_phone)
             then Some (PhoneNumber (NotionUploader_format_phone isdigit (dict_get r key_phone)))
             else None)"
    by (rule NotionUploader_build_properties_phone [OF a])
  then show "map_of props key_phone \<noteq> Some (RichText s)"
    by simp
qed

text \<open>The theorem at a record with the phone \<open>01012345678\<close>.\<close>

theorem phone_never_rich_text_witness:
  "NotionUploader_build_properties isdigit_latin1
       \<lparr>database_id = ascii ''db'', db_info = Some []\<rparr>
       [(key_name, PStr (ascii ''A'')), (key_phone, PStr (ascii ''01012345678''))]
     = Inr [(key_name, Title (ascii ''A'')), (key_phone, PhoneNumber (ascii ''010-1234-5678''))]
   \<and> truthy (dict_get [(key_name, PStr (ascii ''A'')), (key_phone, PStr (ascii ''01012345678''))]
        key_phone)
   \<and> map_of [(key_name, Title (ascii ''A'')), (key_phone, PhoneNumber (ascii ''010-1234-5678''))]
        key_phone
     = Some (PhoneNumber (NotionUploader_format_phone isdigit_latin1
          (dict_get [(key_name, PStr (ascii ''A'')), (key_phone, PStr (ascii ''01012345678''))]
             key_phone)))
   \<and> map_of (build_properties isdigit_latin1
          [(key_name, PStr (ascii ''A'')), (key_phone, PStr (ascii ''01012345678''))] []) key_phone
     = Some (PhoneNumber (ascii ''010-1234-5678''))"
proof -
  let ?r = "[(key_name, PStr (ascii ''A'')), (key_phone, PStr (ascii ''01012345678''))]"
  let ?self = "\<lparr>database_id = ascii ''db'', db_info = Some []\<rparr>"
  let ?props = "[(key_name, Title (ascii ''A'')),
                 (key_phone, PhoneNumber (ascii ''010-1234-5678''))]"
  have b: "NotionUploader_build_properties isdigit_latin1 ?self ?r = Inr ?props"
    by (simp add: eval_defs)
  have t: "truthy (dict_get ?r key_phone)"
    by (simp add: dict_get_def ascii_def)
  have f: "format_phone isdigit_latin1 (dict_get ?r key_phone) = ascii ''010-1234-5678''"
    by (simp add: dict_get_def format_phone_def isdigit_latin1_def ascii_def)
  note inst = phone_never_rich_text [where isdigit = isdigit_latin1 and r = ?r and self = ?self
      and props = ?props and sch = "[]"]
  from inst b t have w: "map_of ?props key_phone
      = Some (PhoneNumber (NotionUploader_format_phone isdigit_latin1 (dict_get ?r key_phone)))"
    by simp
  from inst t have "map_of (build_properties isdigit_latin1 ?r []) key_phone
      = Some (PhoneNumber (format_phone isdigit_latin1 (dict_get ?r key_phone)))"
    by simp
  then have p: "map_of (build_properties isdigit_latin1 ?r []) key_phone
      = Some (PhoneNumber (ascii ''010-1234-5678''))"
    by (simp only: f)
  from b t w p show ?thesis
    by (intro conjI)
qed

text \<open>
  An empty string is not null, and a record with the empty string as phone gets no phone
  property.
\<close>

theorem phone_empty_counterexample:
  "dict_get [(key_name, PStr (ascii ''A'')), (key_phone, PStr [])] key_phone = PStr []
   \<and> PStr [] \<noteq> PNone
   \<and> build_properties isdigit_latin1 [(key_name, PStr (ascii ''A'')), (key_phone, PStr [])] []
       = [(key_name, Title (ascii ''A''))]
   \<and> NotionUploader_build_properties isdigit_latin1
         \<lparr>database_id = ascii ''db'', db_info = Some []\<rparr>
         [(key_name, PStr (ascii ''A'')), (key_phone, PStr [])]
       = Inr [(key_name, Title (ascii ''A''))]
   \<and> map_of [(key_name, Title (ascii ''A''))] key_phone = None"
  by (simp add: eval_defs)

end
